theory Spec2Isabelle
  imports Complex_Main "HOL-Library.Sublist"
begin

text \<open>
  A shallow embedding of the FITTRACK front end and of its row-level-security policies:
  the recommendation routine of the AIRecommendation view, the per-day series of the
  progress view, the date filter of the dashboard, the submit and delete handlers of the
  three logging forms, and the policies of the schema migration. Definitions come first,
  auxiliary facts next, the results last.
\<close>

section \<open>Data model (src/lib/supabase.ts)\<close>

text \<open>
  The rows exchanged with the backend, as the TypeScript interfaces declare them.
  JavaScript numbers are modelled as exact rationals (NaN, the infinities and binary
  rounding are outside the model); the integer column \<open>daily_calorie_target\<close> is an
  \<open>int\<close>. An optional or nullable value is an \<open>option\<close>.
\<close>

datatype goal = weight_loss | muscle_gain | maintenance

datatype meal_category = breakfast | lunch | dinner | snack

record UserProfile =
  profile_id :: string
  profile_name :: string
  goal_type :: goal
  daily_calorie_target :: int
  profile_created_at :: string
  updated_at :: string

record FoodItem =
  food_item_id :: string
  food_name :: string
  calories :: rat
  protein :: rat
  carbs :: rat
  fats :: rat
  barcode :: "string option"
  food_created_at :: string

record MealLog =
  meal_id :: string
  meal_user_id :: string
  food_id :: string
  servings :: rat
  category :: meal_category
  logged_at :: string
  meal_created_at :: string
  food_items :: "FoodItem option"

record WeightLog =
  weight_log_id :: string
  weight_user_id :: string
  weight :: rat
  date :: string
  weight_created_at :: string

section \<open>JavaScript library functions used by the views\<close>

text \<open>\<open>s.split('T')[0]\<close>: the part of \<open>s\<close> before the first \<open>T\<close> (all of it when there is none).\<close>

definition date_part :: "string \<Rightarrow> string" where
  "date_part s = takeWhile (\<lambda>c. c \<noteq> CHR ''T'') s"

text \<open>\<open>Math.round\<close>: the nearest integer, a tie going up.\<close>

definition Math_round :: "rat \<Rightarrow> int" where
  "Math_round x = \<lfloor>x + 1 / 2\<rfloor>"

definition digit_char :: "nat \<Rightarrow> char" where
  "digit_char d = ''0123456789'' ! (d mod 10)"

fun nat_digits :: "nat \<Rightarrow> string" where
  "nat_digits n = (if n < 10 then [digit_char n] else nat_digits (n div 10) @ [digit_char (n mod 10)])"

declare nat_digits.simps [simp del]

text \<open>
  Conversion of an integral number to a string, as a template literal does it
  (decimal digits; the exponent notation JavaScript switches to from \<open>10^21\<close> on
  is not modelled).
\<close>

definition number_to_string :: "int \<Rightarrow> string" where
  "number_to_string i = (if i < 0 then ''-'' @ nat_digits (nat (- i)) else nat_digits (nat i))"

text \<open>
  \<open>x.toFixed(1)\<close>: the sign, then the integer \<open>n\<close> nearest to \<open>10 * |x|\<close> (the larger one
  at a tie) written with one digit after the point.
\<close>

definition toFixed1 :: "rat \<Rightarrow> string" where
  "toFixed1 x =
     (let n = nat \<lfloor>\<bar>x\<bar> * 10 + 1 / 2\<rfloor>
      in (if x < 0 then ''-'' else '''') @ nat_digits (n div 10) @ ''.'' @ [digit_char (n mod 10)])"

text \<open>\<open>xs.join(sep)\<close>.\<close>

fun join :: "string \<Rightarrow> string list \<Rightarrow> string" where
  "join sep [] = []"
| "join sep [x] = x"
| "join sep (x # y # ys) = x @ sep @ join sep (y # ys)"

text \<open>
  A quotient of two numbers. Where JavaScript would produce NaN or an infinity
  (a zero divisor) the model has no number and reports it.
\<close>

datatype js_error = Not_finite

definition js_divide :: "rat \<Rightarrow> rat \<Rightarrow> js_error + rat" where
  "js_divide a b = (if b = 0 then Inl Not_finite else Inr (a / b))"

text \<open>\<open>Set.add\<close> on a set kept in insertion order.\<close>

definition set_add :: "'a \<Rightarrow> 'a list \<Rightarrow> 'a list" where
  "set_add x xs = (if x \<in> set xs then xs else xs @ [x])"

section \<open>The recommendation routine (AIRecommendation, analyzeAndRecommend)\<close>

definition newline2 :: string where
  "newline2 = [CHR 0x0A, CHR 0x0A]"

definition msg_no_profile :: string where
  "msg_no_profile = ''Complete your profile to get personalized recommendations.''"

definition msg_start_logging :: string where
  "msg_start_logging = ''Start logging your meals to track your calorie and macro intake.''"

definition msg_below :: "rat \<Rightarrow> int \<Rightarrow> string" where
  "msg_below avgDailyCalories targetCalories =
     ''Your average daily intake ('' @ number_to_string (Math_round avgDailyCalories)
     @ '' cal) is below your target ('' @ number_to_string targetCalories
     @ '' cal). Consider adding nutrient-dense snacks.''"

definition msg_exceeds :: "rat \<Rightarrow> int \<Rightarrow> string" where
  "msg_exceeds avgDailyCalories targetCalories =
     ''Your average daily intake ('' @ number_to_string (Math_round avgDailyCalories)
     @ '' cal) exceeds your target ('' @ number_to_string targetCalories
     @ '' cal). Focus on portion control and choose lower-calorie options.''"

definition msg_aligned :: "rat \<Rightarrow> string" where
  "msg_aligned avgDailyCalories =
     ''Great job! Your calorie intake ('' @ number_to_string (Math_round avgDailyCalories)
     @ '' cal) is aligned with your target.''"

definition msg_protein :: string where
  "msg_protein =
     ''For muscle gain, increase your protein intake. Aim for lean meats, fish, eggs, and legumes.''"

definition msg_weight_increased :: "rat \<Rightarrow> string" where
  "msg_weight_increased weightChange =
     ''Your weight increased by '' @ toFixed1 weightChange
     @ '' kg. Review your calorie deficit and increase physical activity.''"

definition msg_weight_decreased :: "rat \<Rightarrow> string" where
  "msg_weight_decreased weightChange =
     ''Your weight decreased by '' @ toFixed1 \<bar>weightChange\<bar>
     @ '' kg. Increase calorie intake and focus on protein-rich foods.''"

definition msg_weight_lost :: "rat \<Rightarrow> string" where
  "msg_weight_lost weightChange =
     ''Excellent progress! You'' @ [CHR 0x27] @ ''ve lost '' @ toFixed1 \<bar>weightChange\<bar>
     @ '' kg. Keep up the good work!''"

definition msg_log_weight :: string where
  "msg_log_weight =
     ''Log your weight regularly to track progress and adjust your plan accordingly.''"

definition tip_weight_loss :: string where
  "tip_weight_loss =
     ''Tip: Focus on whole foods, increase fiber intake, and stay hydrated. Aim for consistent calorie deficit.''"

definition tip_muscle_gain :: string where
  "tip_muscle_gain =
     ''Tip: Prioritize protein intake (1.6-2.2g per kg body weight), progressive resistance training, and adequate rest.''"

definition tip_maintenance :: string where
  "tip_maintenance =
     ''Tip: Maintain balanced macros, stay active, and monitor your weight to ensure you remain at maintenance.''"

text \<open>The running totals of the \<open>forEach\<close> over the meals.\<close>

record totals =
  totalCalories :: rat
  totalProtein :: rat
  totalCarbs :: rat
  totalFats :: rat
  daysLogged :: "string list"

definition no_totals :: totals where
  "no_totals = \<lparr>totalCalories = 0, totalProtein = 0, totalCarbs = 0, totalFats = 0, daysLogged = []\<rparr>"

definition add_meal :: "totals \<Rightarrow> MealLog \<Rightarrow> totals" where
  "add_meal acc meal =
     (case food_items meal of
        None \<Rightarrow> acc
      | Some food \<Rightarrow>
          \<lparr>totalCalories = totalCalories acc + calories food * servings meal,
           totalProtein = totalProtein acc + protein food * servings meal,
           totalCarbs = totalCarbs acc + carbs food * servings meal,
           totalFats = totalFats acc + fats food * servings meal,
           daysLogged = set_add (date_part (logged_at meal)) (daysLogged acc)\<rparr>)"

definition sum_meals :: "MealLog list \<Rightarrow> totals" where
  "sum_meals meals = foldl add_meal no_totals meals"

text \<open>The calorie branch, given the average.\<close>

definition calorie_message :: "rat \<Rightarrow> int \<Rightarrow> string" where
  "calorie_message avgDailyCalories targetCalories =
     (if avgDailyCalories < of_int targetCalories * (8 / 10) then msg_below avgDailyCalories targetCalories
      else if avgDailyCalories > of_int targetCalories * (12 / 10) then msg_exceeds avgDailyCalories targetCalories
      else msg_aligned avgDailyCalories)"

text \<open>The first block: what the meals of the last days say.\<close>

definition meal_recommendations :: "UserProfile \<Rightarrow> MealLog list option \<Rightarrow> js_error + string list" where
  "meal_recommendations profile meals =
     (case meals of
        None \<Rightarrow> Inr [msg_start_logging]
      | Some ms \<Rightarrow>
          if length ms = 0 then Inr [msg_start_logging]
          else
            (let t = sum_meals ms in
             (case js_divide (totalCalories t) (of_nat (max (length (daysLogged t)) 1)) of
                Inl e \<Rightarrow> Inl e
              | Inr avgDailyCalories \<Rightarrow>
                 (case js_divide (totalProtein t) (of_nat (max (length (daysLogged t)) 1)) of
                    Inl e \<Rightarrow> Inl e
                  | Inr avgProtein \<Rightarrow>
                      Inr ([calorie_message avgDailyCalories (daily_calorie_target profile)]
                           @ (if avgProtein < 50 \<and> goal_type profile = muscle_gain
                              then [msg_protein] else []))))))"

text \<open>The second block: the last two weights, most recent first.\<close>

definition weight_recommendations :: "UserProfile \<Rightarrow> WeightLog list option \<Rightarrow> string list" where
  "weight_recommendations profile weights =
     (case weights of
        None \<Rightarrow> [msg_log_weight]
      | Some ws \<Rightarrow>
          if length ws \<ge> 2 then
            (let weightChange = weight (ws ! 0) - weight (ws ! 1) in
             if goal_type profile = weight_loss \<and> weightChange > 0
               then [msg_weight_increased weightChange]
             else if goal_type profile = muscle_gain \<and> weightChange < 0
               then [msg_weight_decreased weightChange]
             else if weightChange < 0 \<and> goal_type profile = weight_loss
               then [msg_weight_lost weightChange]
             else [])
          else [msg_log_weight])"

definition goal_tip :: "UserProfile \<Rightarrow> string" where
  "goal_tip profile =
     (if goal_type profile = weight_loss then tip_weight_loss
      else if goal_type profile = muscle_gain then tip_muscle_gain
      else tip_maintenance)"

definition analyzeAndRecommend ::
  "UserProfile option \<Rightarrow> MealLog list option \<Rightarrow> WeightLog list option \<Rightarrow> js_error + string" where
  "analyzeAndRecommend profile meals weights =
     (case profile of
        None \<Rightarrow> Inr msg_no_profile
      | Some p \<Rightarrow>
          (case meal_recommendations p meals of
             Inl e \<Rightarrow> Inl e
           | Inr recs \<Rightarrow>
               Inr (join newline2 (recs @ weight_recommendations p weights @ [goal_tip p]))))"

section \<open>Reference notions for the claims about the recommendation text\<close>











section \<open>The progress view (ProgressCharts, loadProgressData)\<close>

text \<open>
  \<open>Map.get\<close> and \<open>Map.set\<close> on a map kept as its entries in insertion order: a key that
  is already present keeps its place, a new key goes last.
\<close>

definition map_get :: "('k \<times> 'v) list \<Rightarrow> 'k \<Rightarrow> 'v option" where
  "map_get entries k = map_of entries k"

fun map_set :: "'k \<Rightarrow> 'v \<Rightarrow> ('k \<times> 'v) list \<Rightarrow> ('k \<times> 'v) list" where
  "map_set k v [] = [(k, v)]"
| "map_set k v ((k', v') # entries) =
     (if k' = k then (k, v) # entries else (k', v') # map_set k v entries)"

text \<open>One step of the \<open>forEach\<close>: \<open>get(date) || 0\<close> is 0 for a missing key (and for a stored 0).\<close>

definition add_day_calories :: "(string \<times> rat) list \<Rightarrow> MealLog \<Rightarrow> (string \<times> rat) list" where
  "add_day_calories caloriesByDay meal =
     (let date = date_part (logged_at meal);
          calories = (case food_items meal of Some food \<Rightarrow> calories food * servings meal | None \<Rightarrow> 0)
      in map_set date ((case map_get caloriesByDay date of None \<Rightarrow> 0 | Some c \<Rightarrow> c) + calories)
           caloriesByDay)"

definition caloriesByDay :: "MealLog list \<Rightarrow> (string \<times> rat) list" where
  "caloriesByDay meals = foldl add_day_calories [] meals"

record DayCalories =
  day :: string
  day_calories :: int

text \<open>
  \<open>Array.prototype.sort\<close> with a comparison function: a stable sort, here by insertion.
  The comparison \<open>a.date.localeCompare(b.date)\<close> belongs to the host's collation and is
  a parameter \<open>cmp\<close> of the model (negative, zero or positive).
\<close>

fun insert_by :: "(string \<Rightarrow> string \<Rightarrow> int) \<Rightarrow> DayCalories \<Rightarrow> DayCalories list \<Rightarrow> DayCalories list" where
  "insert_by cmp x [] = [x]"
| "insert_by cmp x (y # ys) =
     (if cmp (day x) (day y) \<le> 0 then x # y # ys else y # insert_by cmp x ys)"

definition sort_by :: "(string \<Rightarrow> string \<Rightarrow> int) \<Rightarrow> DayCalories list \<Rightarrow> DayCalories list" where
  "sort_by cmp xs = foldr (insert_by cmp) xs []"

definition calorieData :: "(string \<Rightarrow> string \<Rightarrow> int) \<Rightarrow> MealLog list \<Rightarrow> DayCalories list" where
  "calorieData cmp meals =
     sort_by cmp (map (\<lambda>(date, calories). \<lparr>day = date, day_calories = Math_round calories\<rparr>)
                      (caloriesByDay meals))"

text \<open>The state \<open>dailyCalories\<close> after the load: a null result of the query leaves it as it was.\<close>

definition setDailyCalories ::
  "(string \<Rightarrow> string \<Rightarrow> int) \<Rightarrow> MealLog list option \<Rightarrow> DayCalories list \<Rightarrow> DayCalories list" where
  "setDailyCalories cmp meals dailyCalories =
     (case meals of None \<Rightarrow> dailyCalories | Some ms \<Rightarrow> calorieData cmp ms)"



section \<open>The dashboard (Dashboard, loadDashboardData)\<close>

text \<open>
  The store keeps \<open>logged_at\<close> as an instant; here it is a number of milliseconds since the
  epoch and a calendar day is a day number. The filter values of the query are the texts
  \<open>YYYY-MM-DD\<close> (midnight of the day) and \<open>YYYY-MM-DDT23:59:59\<close>.
\<close>

definition ms_per_day :: int where
  "ms_per_day = 86400000"

definition midnight :: "int \<Rightarrow> int" where
  "midnight d = d * ms_per_day"

definition at_23_59_59 :: "int \<Rightarrow> int" where
  "at_23_59_59 d = midnight d + ((23 * 60 + 59) * 60 + 59) * 1000"

text \<open>A stored meal: the instant the store compares, and the row it returns.\<close>

record StoredMeal =
  logged_instant :: int
  meal_row :: MealLog

text \<open>
  \<open>from('meal_logs').eq('user_id', user.id).gte('logged_at', today).lt('logged_at', `${today}T23:59:59`)\<close>
\<close>

definition today_query :: "string \<Rightarrow> int \<Rightarrow> StoredMeal list \<Rightarrow> MealLog list" where
  "today_query uid today meal_logs =
     map meal_row
       (filter (\<lambda>r. meal_user_id (meal_row r) = uid
                    \<and> logged_instant r \<ge> midnight today
                    \<and> logged_instant r < at_23_59_59 today) meal_logs)"

record Macros =
  macro_protein :: int
  macro_carbs :: int
  macro_fats :: int

text \<open>The loop over \<open>mealsData\<close>: calories, protein, carbs and fats, in this order.\<close>

definition add_today :: "rat \<times> rat \<times> rat \<times> rat \<Rightarrow> MealLog \<Rightarrow> rat \<times> rat \<times> rat \<times> rat" where
  "add_today acc meal =
     (case acc of (cal, prot, carb, fat) \<Rightarrow>
        (case food_items meal of
           None \<Rightarrow> acc
         | Some food \<Rightarrow>
             (cal + calories food * servings meal, prot + protein food * servings meal,
              carb + carbs food * servings meal, fat + fats food * servings meal)))"

definition today_totals :: "MealLog list \<Rightarrow> int \<times> Macros" where
  "today_totals mealsData =
     (case foldl add_today (0, 0, 0, 0) mealsData of (cal, prot, carb, fat) \<Rightarrow>
        (Math_round cal,
         \<lparr>macro_protein = Math_round prot, macro_carbs = Math_round carb, macro_fats = Math_round fat\<rparr>))"

definition todayCalories :: "string \<Rightarrow> int \<Rightarrow> StoredMeal list \<Rightarrow> int" where
  "todayCalories uid today meal_logs = fst (today_totals (today_query uid today meal_logs))"

definition todayMacros :: "string \<Rightarrow> int \<Rightarrow> StoredMeal list \<Rightarrow> Macros" where
  "todayMacros uid today meal_logs = snd (today_totals (today_query uid today meal_logs))"

text \<open>An instant falls on a calendar day: from its midnight up to the next one.\<close>

definition on_day :: "int \<Rightarrow> int \<Rightarrow> bool" where
  "on_day d t \<longleftrightarrow> midnight d \<le> t \<and> t < midnight (d + 1)"

section \<open>The forms: what a handler does to the component state\<close>

text \<open>
  A handler takes the state of its component and the replies of the backend to its
  requests (the \<open>error\<close> of an insert or delete, the \<open>data\<close> of the reload) and returns the
  new state with the trace of what it did.
\<close>

type_synonym backend_error = string

datatype effect =
    Request_insert string
  | Request_delete string string
  | Request_select string
  | Console_error string backend_error
  | Notify_parent

record Measurement =
  measurement_id :: string
  measurement_user_id :: string
  measurement_date :: string
  waist :: "rat option"
  chest :: "rat option"
  arms :: "rat option"
  hips :: "rat option"
  thighs :: "rat option"
  measurement_created_at :: string

subsection \<open>WeightTracking\<close>

record WeightTracking =
  weight_field :: string
  date_field :: string
  weightLogs :: "WeightLog list"
  weight_loading :: bool

definition loadWeightLogs ::
  "string option \<Rightarrow> WeightLog list option \<Rightarrow> WeightTracking \<Rightarrow> WeightTracking \<times> effect list" where
  "loadWeightLogs user data s =
     (case user of
        None \<Rightarrow> (s, [])
      | Some uid \<Rightarrow>
          ((case data of None \<Rightarrow> s | Some rows \<Rightarrow> s\<lparr>weightLogs := rows\<rparr>),
           [Request_select ''weight_logs'']))"

definition handleSubmit_weight ::
  "string option \<Rightarrow> string \<Rightarrow> backend_error option \<Rightarrow> WeightLog list option
     \<Rightarrow> WeightTracking \<Rightarrow> WeightTracking \<times> effect list" where
  "handleSubmit_weight user now error data s =
     (case user of
        None \<Rightarrow> (s, [])
      | Some uid \<Rightarrow>
          (let s1 = s\<lparr>weight_loading := True\<rparr> in
           (case error of
              Some e \<Rightarrow>
                (s1\<lparr>weight_loading := False\<rparr>,
                 [Request_insert ''weight_logs'', Console_error ''Error logging weight:'' e])
            | None \<Rightarrow>
                (let s2 = s1\<lparr>weight_field := [], date_field := date_part now\<rparr>;
                     (s3, reload) = loadWeightLogs user data s2
                 in (s3\<lparr>weight_loading := False\<rparr>, Request_insert ''weight_logs'' # reload)))))"

definition handleDelete_weight ::
  "string option \<Rightarrow> string \<Rightarrow> backend_error option \<Rightarrow> WeightLog list option
     \<Rightarrow> WeightTracking \<Rightarrow> WeightTracking \<times> effect list" where
  "handleDelete_weight user row_id error data s =
     (case error of
        Some e \<Rightarrow>
          (s, [Request_delete ''weight_logs'' row_id, Console_error ''Error deleting weight log:'' e])
      | None \<Rightarrow>
          (let (s1, reload) = loadWeightLogs user data s
           in (s1, Request_delete ''weight_logs'' row_id # reload)))"

subsection \<open>MealLogging\<close>

record MealLogging =
  foods :: "FoodItem list"
  filteredFoods :: "FoodItem list"
  searchTerm :: string
  selectedFood :: "FoodItem option"
  servings_field :: rat
  category_field :: meal_category
  mealLogs :: "MealLog list"
  meal_loading :: bool

definition loadMealLogs ::
  "string option \<Rightarrow> MealLog list option \<Rightarrow> MealLogging \<Rightarrow> MealLogging \<times> effect list" where
  "loadMealLogs user data s =
     (case user of
        None \<Rightarrow> (s, [])
      | Some uid \<Rightarrow>
          ((case data of None \<Rightarrow> s | Some rows \<Rightarrow> s\<lparr>mealLogs := rows\<rparr>),
           [Request_select ''meal_logs'']))"

definition handleLogMeal ::
  "string option \<Rightarrow> backend_error option \<Rightarrow> MealLog list option
     \<Rightarrow> MealLogging \<Rightarrow> MealLogging \<times> effect list" where
  "handleLogMeal user error data s =
     (if user = None \<or> selectedFood s = None then (s, [])
      else
        (let s1 = s\<lparr>meal_loading := True\<rparr> in
         (case error of
            Some e \<Rightarrow>
              (s1\<lparr>meal_loading := False\<rparr>,
               [Request_insert ''meal_logs'', Console_error ''Error logging meal:'' e])
          | None \<Rightarrow>
              (let s2 = s1\<lparr>selectedFood := None, servings_field := 1, searchTerm := []\<rparr>;
                   (s3, reload) = loadMealLogs user data s2
               in (s3\<lparr>meal_loading := False\<rparr>,
                   Request_insert ''meal_logs'' # reload @ [Notify_parent])))))"

definition handleDeleteMeal ::
  "string option \<Rightarrow> string \<Rightarrow> backend_error option \<Rightarrow> MealLog list option
     \<Rightarrow> MealLogging \<Rightarrow> MealLogging \<times> effect list" where
  "handleDeleteMeal user row_id error data s =
     (case error of
        Some e \<Rightarrow>
          (s, [Request_delete ''meal_logs'' row_id, Console_error ''Error deleting meal:'' e])
      | None \<Rightarrow>
          (let (s1, reload) = loadMealLogs user data s
           in (s1, Request_delete ''meal_logs'' row_id # reload @ [Notify_parent])))"

subsection \<open>MeasurementTracking\<close>

record MeasurementForm =
  form_date :: string
  form_waist :: string
  form_chest :: string
  form_arms :: string
  form_hips :: string
  form_thighs :: string

record MeasurementTracking =
  measurements :: "Measurement list"
  measurement_loading :: bool
  formData :: MeasurementForm

definition loadMeasurements ::
  "string option \<Rightarrow> Measurement list option \<Rightarrow> MeasurementTracking
     \<Rightarrow> MeasurementTracking \<times> effect list" where
  "loadMeasurements user data s =
     (case user of
        None \<Rightarrow> (s, [])
      | Some uid \<Rightarrow>
          ((case data of None \<Rightarrow> s | Some rows \<Rightarrow> s\<lparr>measurements := rows\<rparr>),
           [Request_select ''measurements'']))"

definition handleSubmit_measurement ::
  "string option \<Rightarrow> string \<Rightarrow> backend_error option \<Rightarrow> Measurement list option
     \<Rightarrow> MeasurementTracking \<Rightarrow> MeasurementTracking \<times> effect list" where
  "handleSubmit_measurement user now error data s =
     (case user of
        None \<Rightarrow> (s, [])
      | Some uid \<Rightarrow>
          (let s1 = s\<lparr>measurement_loading := True\<rparr> in
           (case error of
              Some e \<Rightarrow>
                (s1\<lparr>measurement_loading := False\<rparr>,
                 [Request_insert ''measurements'', Console_error ''Error logging measurements:'' e])
            | None \<Rightarrow>
                (let s2 = s1\<lparr>formData :=
                             \<lparr>form_date = date_part now, form_waist = [], form_chest = [],
                              form_arms = [], form_hips = [], form_thighs = []\<rparr>\<rparr>;
                     (s3, reload) = loadMeasurements user data s2
                 in (s3\<lparr>measurement_loading := False\<rparr>, Request_insert ''measurements'' # reload)))))"

definition handleDelete_measurement ::
  "string option \<Rightarrow> string \<Rightarrow> backend_error option \<Rightarrow> Measurement list option
     \<Rightarrow> MeasurementTracking \<Rightarrow> MeasurementTracking \<times> effect list" where
  "handleDelete_measurement user row_id error data s =
     (case error of
        Some e \<Rightarrow>
          (s, [Request_delete ''measurements'' row_id, Console_error ''Error deleting measurement:'' e])
      | None \<Rightarrow>
          (let (s1, reload) = loadMeasurements user data s
           in (s1, Request_delete ''measurements'' row_id # reload)))"

section \<open>Row-level security (the migration's policies)\<close>

text \<open>
  The policies of the migration as data, and the rule the database applies to them: with
  row-level security enabled on a table, a command touches a row only if some policy for
  that table, that command and the caller's role accepts the row (\<open>WITH CHECK\<close> for the row
  an insert brings, \<open>USING\<close> for a row a select, update or delete meets); without any such
  policy nothing is accepted. A row is a map from column names to values.
\<close>

datatype command = FOR_SELECT | FOR_INSERT | FOR_UPDATE | FOR_DELETE

datatype role = authenticated | anon

datatype policy_expr =
    Uid_equals string
  | Always_true

record policy =
  policy_name :: string
  on_table :: string
  for_command :: command
  to_role :: role
  using_expr :: "policy_expr option"
  with_check :: "policy_expr option"

type_synonym row = "string \<Rightarrow> string option"

datatype caller = Authenticated string | Anonymous

fun caller_role :: "caller \<Rightarrow> role" where
  "caller_role (Authenticated uid) = authenticated"
| "caller_role Anonymous = anon"

text \<open>\<open>auth.uid()\<close>: the caller's identity, null without a signed-in user.\<close>

fun auth_uid :: "caller \<Rightarrow> string option" where
  "auth_uid (Authenticated uid) = Some uid"
| "auth_uid Anonymous = None"

text \<open>A policy expression accepts a row when it evaluates to true; a comparison with null does not.\<close>

fun accepts :: "policy_expr \<Rightarrow> caller \<Rightarrow> row \<Rightarrow> bool" where
  "accepts Always_true c r = True"
| "accepts (Uid_equals column) c r =
     (case (auth_uid c, r column) of (Some uid, Some v) \<Rightarrow> uid = v | _ \<Rightarrow> False)"

definition rls_enabled :: "string list" where
  "rls_enabled =
     [''users_profiles'', ''food_items'', ''meal_logs'', ''weight_logs'', ''measurements'',
      ''ai_recommendations'']"

definition own_rows :: "string \<Rightarrow> string \<Rightarrow> string \<Rightarrow> policy list" where
  "own_rows noun tbl column =
     [\<lparr>policy_name = ''Users can view own '' @ noun, on_table = tbl, for_command = FOR_SELECT,
       to_role = authenticated, using_expr = Some (Uid_equals column), with_check = None\<rparr>,
      \<lparr>policy_name = ''Users can insert own '' @ noun, on_table = tbl, for_command = FOR_INSERT,
       to_role = authenticated, using_expr = None, with_check = Some (Uid_equals column)\<rparr>,
      \<lparr>policy_name = ''Users can update own '' @ noun, on_table = tbl, for_command = FOR_UPDATE,
       to_role = authenticated, using_expr = Some (Uid_equals column),
       with_check = Some (Uid_equals column)\<rparr>]"

definition policies :: "policy list" where
  "policies =
     own_rows ''profile'' ''users_profiles'' ''id''
     @ [\<lparr>policy_name = ''Anyone can view food items'', on_table = ''food_items'',
         for_command = FOR_SELECT, to_role = authenticated,
         using_expr = Some Always_true, with_check = None\<rparr>,
        \<lparr>policy_name = ''Authenticated users can add food items'', on_table = ''food_items'',
         for_command = FOR_INSERT, to_role = authenticated,
         using_expr = None, with_check = Some Always_true\<rparr>]
     @ own_rows ''meal logs'' ''meal_logs'' ''user_id''
     @ [\<lparr>policy_name = ''Users can delete own meal logs'', on_table = ''meal_logs'',
         for_command = FOR_DELETE, to_role = authenticated,
         using_expr = Some (Uid_equals ''user_id''), with_check = None\<rparr>]
     @ own_rows ''weight logs'' ''weight_logs'' ''user_id''
     @ [\<lparr>policy_name = ''Users can delete own weight logs'', on_table = ''weight_logs'',
         for_command = FOR_DELETE, to_role = authenticated,
         using_expr = Some (Uid_equals ''user_id''), with_check = None\<rparr>]
     @ own_rows ''measurements'' ''measurements'' ''user_id''
     @ [\<lparr>policy_name = ''Users can delete own measurements'', on_table = ''measurements'',
         for_command = FOR_DELETE, to_role = authenticated,
         using_expr = Some (Uid_equals ''user_id''), with_check = None\<rparr>]
     @ [\<lparr>policy_name = ''Users can view own recommendations'', on_table = ''ai_recommendations'',
         for_command = FOR_SELECT, to_role = authenticated,
         using_expr = Some (Uid_equals ''user_id''), with_check = None\<rparr>,
        \<lparr>policy_name = ''Users can insert recommendations'', on_table = ''ai_recommendations'',
         for_command = FOR_INSERT, to_role = authenticated,
         using_expr = None, with_check = Some (Uid_equals ''user_id'')\<rparr>]"

definition applicable :: "string \<Rightarrow> command \<Rightarrow> caller \<Rightarrow> policy list" where
  "applicable tbl cmd c =
     filter (\<lambda>p. on_table p = tbl \<and> for_command p = cmd \<and> to_role p = caller_role c) policies"

definition may_insert :: "string \<Rightarrow> caller \<Rightarrow> row \<Rightarrow> bool" where
  "may_insert tbl c r \<longleftrightarrow>
     tbl \<notin> set rls_enabled
     \<or> list_ex (\<lambda>p. case with_check p of None \<Rightarrow> False | Some e \<Rightarrow> accepts e c r)
          (applicable tbl FOR_INSERT c)"

definition may_select :: "string \<Rightarrow> caller \<Rightarrow> row \<Rightarrow> bool" where
  "may_select tbl c r \<longleftrightarrow>
     tbl \<notin> set rls_enabled
     \<or> list_ex (\<lambda>p. case using_expr p of None \<Rightarrow> False | Some e \<Rightarrow> accepts e c r)
          (applicable tbl FOR_SELECT c)"

datatype db_error = Rls_violation | Constraint_violation

type_synonym database = "string \<Rightarrow> row list"

text \<open>
  An insert: refused by row-level security, or by one of the table's other constraints
  (not null, foreign key, check: the parameter \<open>valid\<close>), or the row is added.
\<close>

definition insert_row ::
  "(string \<Rightarrow> row \<Rightarrow> bool) \<Rightarrow> database \<Rightarrow> string \<Rightarrow> caller \<Rightarrow> row \<Rightarrow> db_error + database" where
  "insert_row valid db tbl c r =
     (if \<not> may_insert tbl c r then Inl Rls_violation
      else if \<not> valid tbl r then Inl Constraint_violation
      else Inr (db(tbl := db tbl @ [r])))"

definition select_rows :: "database \<Rightarrow> string \<Rightarrow> caller \<Rightarrow> row list" where
  "select_rows db tbl c = filter (may_select tbl c) (db tbl)"

section \<open>Sample rows\<close>

text \<open>Rows used to run the definitions on concrete inputs.\<close>

definition sample_food :: "rat \<Rightarrow> rat \<Rightarrow> FoodItem" where
  "sample_food cal prot =
     \<lparr>food_item_id = ''f1'', food_name = ''Oatmeal'', calories = cal, protein = prot,
      carbs = 28, fats = 3, barcode = None, food_created_at = ''2025-11-01T08:00:00.000Z''\<rparr>"

definition sample_meal :: "string \<Rightarrow> rat \<Rightarrow> FoodItem option \<Rightarrow> MealLog" where
  "sample_meal stamp n food =
     \<lparr>meal_id = ''m1'', meal_user_id = ''u1'', food_id = ''f1'', servings = n,
      category = lunch, logged_at = stamp, meal_created_at = stamp, food_items = food\<rparr>"



section \<open>Auxiliary facts: rendered numbers and text search\<close>








lemma sublist_across:
  assumes sub: "sublist t (a @ d @ b)" and ne: "d \<noteq> []" and dis: "set d \<inter> set t = {}"
  shows "sublist t a \<or> sublist t b"
proof -
  from sub obtain ps ss where eq: "a @ d @ b = ps @ t @ ss"
    by (auto simp: sublist_def)
  obtain us where us: "a = ps @ us \<and> us @ d @ b = t @ ss \<or> a @ us = ps \<and> d @ b = us @ t @ ss"
    using iffD1[OF append_eq_append_conv2 eq] by blast
  then show ?thesis
  proof (elim disjE conjE)
    assume a: "a = ps @ us" and e: "us @ d @ b = t @ ss"
    obtain vs where vs: "us = t @ vs \<and> vs @ d @ b = ss \<or> us @ vs = t \<and> d @ b = vs @ ss"
      using iffD1[OF append_eq_append_conv2 e] by blast
    then show ?thesis
    proof (elim disjE conjE)
      assume "us = t @ vs"
      with a have "a = ps @ t @ vs" by simp
      then show ?thesis unfolding sublist_def by blast
    next
      assume t: "us @ vs = t" and f: "d @ b = vs @ ss"
      show ?thesis
      proof (cases vs)
        case Nil
        with t a have "a = ps @ t @ []" by simp
        then show ?thesis unfolding sublist_def by blast
      next
        case (Cons v vs')
        from ne obtain y ys where d: "d = y # ys" by (cases d) auto
        with f Cons have "y = v" by simp
        with d t Cons have "v \<in> set d" "v \<in> set t" by auto
        with dis show ?thesis by auto
      qed
    qed
  next
    assume p: "a @ us = ps" and e: "d @ b = us @ t @ ss"
    obtain ws where ws: "d = us @ ws \<and> ws @ b = t @ ss \<or> d @ ws = us \<and> b = ws @ t @ ss"
      using iffD1[OF append_eq_append_conv2 e] by blast
    then show ?thesis
    proof (elim disjE conjE)
      assume d: "d = us @ ws" and f: "ws @ b = t @ ss"
      show ?thesis
      proof (cases ws)
        case Nil
        with f have "b = [] @ t @ ss" by simp
        then show ?thesis unfolding sublist_def by blast
      next
        case (Cons w ws')
        show ?thesis
        proof (cases t)
          case Nil
          then show ?thesis by simp
        next
          case (Cons x xs)
          with f \<open>ws = w # ws'\<close> have "w = x" by simp
          with d Cons \<open>ws = w # ws'\<close> have "w \<in> set d" "w \<in> set t" by auto
          with dis show ?thesis by auto
        qed
      qed
    next
      assume "b = ws @ t @ ss"
      then show ?thesis unfolding sublist_def by blast
    qed
  qed
qed



lemma sublist_append_right: "sublist t b \<Longrightarrow> sublist t (a @ b)"
  unfolding sublist_def by (metis append.assoc)

lemma sublist_append_left: "sublist t a \<Longrightarrow> sublist t (a @ b)"
  unfolding sublist_def by (metis append.assoc)

lemma sublist_join_elem: "x \<in> set xs \<Longrightarrow> sublist x (join sep xs)"
proof (induction sep xs rule: join.induct)
  case (3 sep a b bs)
  show ?case
  proof (cases "x = a")
    case True
    then show ?thesis by simp
  next
    case False
    with 3 have "sublist x (join sep (b # bs))" by simp
    then show ?thesis by (simp add: sublist_append_right)
  qed
qed auto

lemma sublist_join_iff:
  assumes "sep \<noteq> []" "set sep \<inter> set t = {}" "t \<noteq> []"
  shows "sublist t (join sep xs) \<longleftrightarrow> (\<exists>x\<in>set xs. sublist t x)"
proof
  assume "sublist t (join sep xs)"
  then show "\<exists>x\<in>set xs. sublist t x"
  proof (induction xs rule: induct_list012)
    case 1
    with assms show ?case by simp
  next
    case (2 x)
    then show ?case by simp
  next
    case (3 x y ys)
    from 3(3) have "sublist t (x @ sep @ join sep (y # ys))" by simp
    then have "sublist t x \<or> sublist t (join sep (y # ys))"
      using assms(1,2) by (rule sublist_across)
    with 3(2) show ?case by auto
  qed
next
  assume "\<exists>x\<in>set xs. sublist t x"
  then obtain x where "x \<in> set xs" "sublist t x" by blast
  then show "sublist t (join sep xs)"
    using sublist_join_elem[of x xs sep] sublist_order.order.trans by blast
qed








section \<open>Auxiliary facts: the running totals\<close>
























lemma meal_recommendations_none:
  "meal_recommendations p None = Inr [msg_start_logging]"
  "meal_recommendations p (Some []) = Inr [msg_start_logging]"
  by (simp_all add: meal_recommendations_def)


section \<open>Auxiliary facts: which message holds which phrase\<close>


lemma search_below:
  "sublist ''below your target'' (join newline2 xs) \<longleftrightarrow> (\<exists>x\<in>set xs. sublist ''below your target'' x)"
  by (rule sublist_join_iff) (simp_all add: newline2_def)


lemma search_exceeds:
  "sublist ''exceeds your target'' (join newline2 xs) \<longleftrightarrow> (\<exists>x\<in>set xs. sublist ''exceeds your target'' x)"
  by (rule sublist_join_iff) (simp_all add: newline2_def)


lemma search_aligned:
  "sublist ''aligned with your target'' (join newline2 xs) \<longleftrightarrow> (\<exists>x\<in>set xs. sublist ''aligned with your target'' x)"
  by (rule sublist_join_iff) (simp_all add: newline2_def)


lemma search_protein:
  "sublist ''For muscle gain, increase your protein intake'' (join newline2 xs) \<longleftrightarrow> (\<exists>x\<in>set xs. sublist ''For muscle gain, increase your protein intake'' x)"
  by (rule sublist_join_iff) (simp_all add: newline2_def)


lemma search_increased:
  "sublist ''Your weight increased by'' (join newline2 xs) \<longleftrightarrow> (\<exists>x\<in>set xs. sublist ''Your weight increased by'' x)"
  by (rule sublist_join_iff) (simp_all add: newline2_def)


lemma search_decreased:
  "sublist ''Your weight decreased by'' (join newline2 xs) \<longleftrightarrow> (\<exists>x\<in>set xs. sublist ''Your weight decreased by'' x)"
  by (rule sublist_join_iff) (simp_all add: newline2_def)


lemma search_lost:
  "sublist ''Excellent progress'' (join newline2 xs) \<longleftrightarrow> (\<exists>x\<in>set xs. sublist ''Excellent progress'' x)"
  by (rule sublist_join_iff) (simp_all add: newline2_def)


lemmas search = search_below search_exceeds search_aligned search_protein search_increased
  search_decreased search_lost


lemma analyzeAndRecommend_no_meals:
  assumes "meals = None \<or> meals = Some []"
  shows "analyzeAndRecommend (Some p) meals w =
     Inr (join newline2 ([msg_start_logging] @ weight_recommendations p w @ [goal_tip p]))"
  using assms by (auto simp: analyzeAndRecommend_def meal_recommendations_none)











section \<open>Auxiliary facts: the per-day map and the sort\<close>





















section \<open>Auxiliary facts: the policies of the three log tables\<close>

lemma own_rows_applicable:
  "filter (\<lambda>p. on_table p = tbl \<and> for_command p = cmd \<and> to_role p = rl) (own_rows noun t column)
   = (if tbl = t \<and> rl = authenticated then
        (if cmd = FOR_SELECT then [\<lparr>policy_name = ''Users can view own '' @ noun, on_table = t, for_command = FOR_SELECT,
       to_role = authenticated, using_expr = Some (Uid_equals column), with_check = None\<rparr>]
         else if cmd = FOR_INSERT then [\<lparr>policy_name = ''Users can insert own '' @ noun, on_table = t, for_command = FOR_INSERT,
       to_role = authenticated, using_expr = None, with_check = Some (Uid_equals column)\<rparr>]
         else if cmd = FOR_UPDATE then [\<lparr>policy_name = ''Users can update own '' @ noun, on_table = t, for_command = FOR_UPDATE,
       to_role = authenticated, using_expr = Some (Uid_equals column),
       with_check = Some (Uid_equals column)\<rparr>] else [])
      else [])"
  by (cases cmd) (auto simp: own_rows_def)

lemma log_table_checks:
  assumes "tbl = ''meal_logs'' \<or> tbl = ''weight_logs'' \<or> tbl = ''measurements''"
  shows "map with_check (applicable tbl FOR_INSERT c)
     = (if caller_role c = authenticated then [Some (Uid_equals ''user_id'')] else [])"
  using assms
  by (elim disjE) (simp_all add: applicable_def policies_def own_rows_applicable)

lemma log_table_usings:
  assumes "tbl = ''meal_logs'' \<or> tbl = ''weight_logs'' \<or> tbl = ''measurements''"
  shows "map using_expr (applicable tbl FOR_SELECT c)
     = (if caller_role c = authenticated then [Some (Uid_equals ''user_id'')] else [])"
  using assms
  by (elim disjE) (simp_all add: applicable_def policies_def own_rows_applicable)

lemma log_table_enabled:
  assumes "tbl = ''meal_logs'' \<or> tbl = ''weight_logs'' \<or> tbl = ''measurements''"
  shows "tbl \<in> set rls_enabled"
  using assms by (auto simp: rls_enabled_def)

lemma list_ex_map: "list_ex (\<lambda>p. P (f p)) xs = list_ex P (map f xs)"
  by (induction xs) simp_all

lemma log_table_insert:
  assumes "tbl = ''meal_logs'' \<or> tbl = ''weight_logs'' \<or> tbl = ''measurements''"
  shows "may_insert tbl c r \<longleftrightarrow> (\<exists>uid. c = Authenticated uid \<and> r ''user_id'' = Some uid)"
proof -
  have "may_insert tbl c r \<longleftrightarrow>
      list_ex (\<lambda>w. case w of None \<Rightarrow> False | Some e \<Rightarrow> accepts e c r)
        (map with_check (applicable tbl FOR_INSERT c))"
    unfolding may_insert_def
    by (simp only: log_table_enabled[OF assms] list_ex_map[where f = with_check] not_True_eq_False simp_thms)
  then show ?thesis
    unfolding log_table_checks[OF assms]
    by (cases c) (auto split: option.splits)
qed

lemma log_table_select:
  assumes "tbl = ''meal_logs'' \<or> tbl = ''weight_logs'' \<or> tbl = ''measurements''"
  shows "may_select tbl c r \<longleftrightarrow> (\<exists>uid. c = Authenticated uid \<and> r ''user_id'' = Some uid)"
proof -
  have "may_select tbl c r \<longleftrightarrow>
      list_ex (\<lambda>w. case w of None \<Rightarrow> False | Some e \<Rightarrow> accepts e c r)
        (map using_expr (applicable tbl FOR_SELECT c))"
    unfolding may_select_def
    by (simp only: log_table_enabled[OF assms] list_ex_map[where f = using_expr] not_True_eq_False simp_thms)
  then show ?thesis
    unfolding log_table_usings[OF assms]
    by (cases c) (auto split: option.splits)
qed

section \<open>Results\<close>

text \<open>
  C9. With no profile (a null first argument) the routine returns exactly the text
  'Complete your profile to get personalized recommendations.', whatever the meals and
  the weights are.
\<close>

theorem analyzeAndRecommend_no_profile:
  "analyzeAndRecommend None meals weights =
     Inr ''Complete your profile to get personalized recommendations.''"
  by (simp add: analyzeAndRecommend_def msg_no_profile_def)














text \<open>
  C6. The claim: today's totals include every meal logged on the current calendar day. The
  code: the upper bound of the filter is 23:59:59 of the day, exclusive, so a meal logged
  in the last second of the day is left out. Day 20394 is 2025-11-02; the meal below is
  logged at 23:59:59.500 of that day and the totals stay at zero.
\<close>

theorem dashboard_misses_last_second:
  "on_day 20394 (midnight 20394 + 86399500)
   \<and> today_query ''u1'' 20394
        [\<lparr>logged_instant = midnight 20394 + 86399500,
          meal_row = sample_meal ''2025-11-02T23:59:59.500Z'' 1 (Some (sample_food 300 20))\<rparr>] = []
   \<and> todayCalories ''u1'' 20394
        [\<lparr>logged_instant = midnight 20394 + 86399500,
          meal_row = sample_meal ''2025-11-02T23:59:59.500Z'' 1 (Some (sample_food 300 20))\<rparr>] = 0
   \<and> todayCalories ''u1'' 20394
        [\<lparr>logged_instant = midnight 20394 + 86398500,
          meal_row = sample_meal ''2025-11-02T23:59:58.500Z'' 1 (Some (sample_food 300 20))\<rparr>] = 300"
  by code_simp

text \<open>
  C7. When the backend answers an insert or a delete with an error, the handler logs it to
  the console and issues no other request. After a failed insert the component state is
  the one before the call with the loading flag false; after a failed delete (a handler
  that has no loading flag) it is the one before the call. Form fields and the displayed
  list are as they were.
\<close>

theorem failed_operation_keeps_state:
  "handleSubmit_weight (Some uid) now (Some e) weight_data ws
     = (ws\<lparr>weight_loading := False\<rparr>,
        [Request_insert ''weight_logs'', Console_error ''Error logging weight:'' e])
   \<and> handleDelete_weight user row_id (Some e) weight_data ws
     = (ws, [Request_delete ''weight_logs'' row_id, Console_error ''Error deleting weight log:'' e])
   \<and> (selectedFood ms \<noteq> None \<longrightarrow>
        handleLogMeal (Some uid) (Some e) meal_data ms
          = (ms\<lparr>meal_loading := False\<rparr>,
             [Request_insert ''meal_logs'', Console_error ''Error logging meal:'' e]))
   \<and> handleDeleteMeal user row_id (Some e) meal_data ms
     = (ms, [Request_delete ''meal_logs'' row_id, Console_error ''Error deleting meal:'' e])
   \<and> handleSubmit_measurement (Some uid) now (Some e) measurement_data bs
     = (bs\<lparr>measurement_loading := False\<rparr>,
        [Request_insert ''measurements'', Console_error ''Error logging measurements:'' e])
   \<and> handleDelete_measurement user row_id (Some e) measurement_data bs
     = (bs, [Request_delete ''measurements'' row_id, Console_error ''Error deleting measurement:'' e])"
  by (simp add: handleSubmit_weight_def handleDelete_weight_def handleLogMeal_def
      handleDeleteMeal_def handleSubmit_measurement_def handleDelete_measurement_def)

theorem failed_operation_keeps_state_witness:
  "handleLogMeal (Some ''u1'') (Some ''new row violates row-level security policy'') None
      \<lparr>foods = [sample_food 158 6], filteredFoods = [sample_food 158 6], searchTerm = ''oat'',
       selectedFood = Some (sample_food 158 6), servings_field = 2, category_field = breakfast,
       mealLogs = [], meal_loading = False\<rparr>
   = (\<lparr>foods = [sample_food 158 6], filteredFoods = [sample_food 158 6], searchTerm = ''oat'',
       selectedFood = Some (sample_food 158 6), servings_field = 2, category_field = breakfast,
       mealLogs = [], meal_loading = False\<rparr>,
      [Request_insert ''meal_logs'',
       Console_error ''Error logging meal:'' ''new row violates row-level security policy''])"
  using failed_operation_keeps_state
    [where uid = "''u1''" and e = "''new row violates row-level security policy''"
       and meal_data = None
       and ms = "\<lparr>foods = [sample_food 158 6], filteredFoods = [sample_food 158 6], searchTerm = ''oat'',
         selectedFood = Some (sample_food 158 6), servings_field = 2, category_field = breakfast,
         mealLogs = [], meal_loading = False\<rparr>"]
  by simp

text \<open>
  C8. Under the policies of the migration, an insert into meal_logs, weight_logs or
  measurements by an authenticated user succeeds only if the row's user_id is the
  caller's identity; the row is then returned by a select of the same user, and by no
  select of another user nor of an anonymous caller.
\<close>

theorem own_rows_only:
  assumes "tbl = ''meal_logs'' \<or> tbl = ''weight_logs'' \<or> tbl = ''measurements''"
    and "insert_row valid db tbl (Authenticated uid) r = Inr db'"
  shows "r ''user_id'' = Some uid
     \<and> r \<in> set (select_rows db' tbl (Authenticated uid))
     \<and> (\<forall>other. other \<noteq> uid \<longrightarrow> r \<notin> set (select_rows db' tbl (Authenticated other)))
     \<and> r \<notin> set (select_rows db' tbl Anonymous)"
proof -
  from assms(2) have ok: "may_insert tbl (Authenticated uid) r" and db': "db' = db(tbl := db tbl @ [r])"
    by (auto simp: insert_row_def split: if_splits)
  from ok have own: "r ''user_id'' = Some uid"
    by (simp add: log_table_insert[OF assms(1)])
  have "r \<in> set (db' tbl)"
    by (simp add: db')
  with own show ?thesis
    by (auto simp: select_rows_def log_table_select[OF assms(1)])
qed

theorem own_rows_only_witness:
  "[''id'' \<mapsto> ''r1'', ''user_id'' \<mapsto> ''u1''] ''user_id'' = Some ''u1''
   \<and> [''id'' \<mapsto> ''r1'', ''user_id'' \<mapsto> ''u1'']
        \<in> set (select_rows ((\<lambda>t. [])(''meal_logs'' := [] @ [[''id'' \<mapsto> ''r1'', ''user_id'' \<mapsto> ''u1'']]))
                 ''meal_logs'' (Authenticated ''u1''))
   \<and> [''id'' \<mapsto> ''r1'', ''user_id'' \<mapsto> ''u1'']
        \<notin> set (select_rows ((\<lambda>t. [])(''meal_logs'' := [] @ [[''id'' \<mapsto> ''r1'', ''user_id'' \<mapsto> ''u1'']]))
                 ''meal_logs'' (Authenticated ''u2''))"
proof -
  let ?r = "[''id'' \<mapsto> ''r1'', ''user_id'' \<mapsto> ''u1'']"
  have tbl: "''meal_logs'' = ''meal_logs'' \<or> ''meal_logs'' = ''weight_logs'' \<or> ''meal_logs'' = ''measurements''"
    by simp
  have own: "?r ''user_id'' = Some ''u1''"
    by simp
  have ins: "insert_row (\<lambda>t r. True) (\<lambda>t. []) ''meal_logs'' (Authenticated ''u1'') ?r
     = Inr ((\<lambda>t. [])(''meal_logs'' := [] @ [?r]))"
    unfolding insert_row_def log_table_insert[OF tbl] using own by simp
  have diff: "''u2'' \<noteq> ''u1''"
    by simp
  note w = own_rows_only[OF tbl ins]
  have a: "?r \<in> set (select_rows ((\<lambda>t. [])(''meal_logs'' := [] @ [?r])) ''meal_logs'' (Authenticated ''u1''))"
    by (rule conjunct1[OF conjunct2[OF w]])
  have others: "\<forall>other. other \<noteq> ''u1'' \<longrightarrow>
      ?r \<notin> set (select_rows ((\<lambda>t. [])(''meal_logs'' := [] @ [?r])) ''meal_logs'' (Authenticated other))"
    by (rule conjunct1[OF conjunct2[OF conjunct2[OF w]]])
  have b: "?r \<notin> set (select_rows ((\<lambda>t. [])(''meal_logs'' := [] @ [?r])) ''meal_logs'' (Authenticated ''u2''))"
    by (rule mp[OF spec[OF others] diff])
  show ?thesis
    by (rule conjI[OF own conjI[OF a b]])
qed

end
